theory Spec2Isabelle
  imports Main
begin

unbundle bit_operations_syntax

section \<open>Python values and exceptions\<close>

text \<open>
  The builders are dynamically typed: every setter stores whatever it is given. The
  values that occur in the module system's data are covered by one datatype: \<open>None\<close>,
  unbounded integers (identifiers, opcodes and bit masks), strings, lists and tuples.
  On these values Python's \<open>==\<close> is structural equality (a list never equals a tuple, an
  integer never equals a string), which is HOL's \<open>=\<close> on \<open>pyval\<close>. Booleans, floats and
  dictionaries are outside the universe.
\<close>

datatype pyval =
    PNone
  | PInt int
  | PStr string
  | PList "pyval list"
  | PTuple "pyval list"

datatype error =
    ValueError string
  | TypeError
  | IndexError
  | AttributeError string

text \<open>\<open>type(x) == list\<close> and \<open>type(x) is tuple\<close>.\<close>

fun is_list :: "pyval \<Rightarrow> bool" where
  "is_list (PList xs) = True"
| "is_list v = False"

fun is_tuple :: "pyval \<Rightarrow> bool" where
  "is_tuple (PTuple xs) = True"
| "is_tuple v = False"

text \<open>
  \<open>operator.or_\<close>: bitwise OR of two integers (Python integers are unbounded and
  negative ones behave as infinite two's complement, as \<open>OR\<close> on \<open>int\<close> does); on the
  other values of the universe \<open>|\<close> raises TypeError.
\<close>

fun py_or :: "pyval \<Rightarrow> pyval \<Rightarrow> error + pyval" where
  "py_or (PInt a) (PInt b) = Inr (PInt (a OR b))"
| "py_or a b = Inl TypeError"

text \<open>
  \<open>functools.reduce(or_, xs)\<close> with no initial value: TypeError on the empty list, the
  single element (untouched) on a one-element list, otherwise the left fold.
\<close>

fun reduce_from :: "pyval \<Rightarrow> pyval list \<Rightarrow> error + pyval" where
  "reduce_from acc [] = Inr acc"
| "reduce_from acc (x # xs) =
     (case py_or acc x of Inl e \<Rightarrow> Inl e | Inr v \<Rightarrow> reduce_from v xs)"

fun reduce_or :: "pyval list \<Rightarrow> error + pyval" where
  "reduce_or [] = Inl TypeError"
| "reduce_or (x # xs) = reduce_from x xs"

text \<open>
  Subscription \<open>xs[i]\<close> of a Python list held as a HOL list, and \<open>v[i]\<close> of a value:
  negative indices count from the end, an index out of range raises IndexError, a
  value that is no sequence raises TypeError, a string yields the one-character string.
\<close>

definition list_item :: "'a list \<Rightarrow> int \<Rightarrow> error + 'a" where
  "list_item xs i =
     (if - int (length xs) \<le> i \<and> i < 0 then Inr (xs ! nat (int (length xs) + i))
      else if 0 \<le> i \<and> i < int (length xs) then Inr (xs ! nat i)
      else Inl IndexError)"

fun getitem :: "pyval \<Rightarrow> int \<Rightarrow> error + pyval" where
  "getitem (PList xs) i = list_item xs i"
| "getitem (PTuple xs) i = list_item xs i"
| "getitem (PStr s) i = (case list_item s i of Inl e \<Rightarrow> Inl e | Inr c \<Rightarrow> Inr (PStr [c]))"
| "getitem v i = Inl TypeError"

section \<open>DialogBuilder\<close>

subsection \<open>State\<close>

text \<open>
  The class body binds eight names at class scope. Every method but one touches them
  by assignment \<open>self.x = ...\<close>, which creates an attribute of the instance and leaves
  the class attribute alone; a read \<open>self.x\<close> finds the instance attribute if there is
  one and the class attribute otherwise. The class attributes of the seven scalar
  fields are never assigned, so an instance's view of them is a plain field whose
  initial value is the class value (\<open>None\<close>, \<open>[]\<close> or \<open>""\<close>).

  \<open>dialogs\<close> is different: \<open>append\<close> mutates the list in place
  (\<open>self.dialogs.append(dialog)\<close>), and only \<open>done\<close> assigns \<open>self.dialogs = []\<close>. So an
  instance has the instance attribute \<open>own_dialogs\<close> only after its first \<open>done\<close>;
  until then \<open>self.dialogs\<close> is the one list object of the class, \<open>class_dialogs\<close>.
  \<open>attrs\<close> is the instance, \<open>builder\<close> what a method sees through \<open>self\<close>: the
  instance together with the class's list.
\<close>

record attrs =
  own_dialogs :: "pyval list option"
  partner_bitwise :: pyval
  pre_state_string :: pyval
  pre_state_reply_string :: pyval
  condition_tuples :: pyval
  dialog_string :: pyval
  post_state_string :: pyval
  consequence_tuples :: pyval

record builder = attrs +
  class_dialogs :: "pyval list"

text \<open>An exception leaves the builder as it was when raised; the error carries it.\<close>

type_synonym 'a result = "(error \<times> builder) + 'a"

text \<open>The read \<open>self.dialogs\<close> and the in-place \<open>self.dialogs.append(d)\<close>.\<close>

definition dialogs :: "builder \<Rightarrow> pyval list" where
  "dialogs self =
     (case own_dialogs self of Some xs \<Rightarrow> xs | None \<Rightarrow> class_dialogs self)"

definition dialogs_append :: "builder \<Rightarrow> pyval \<Rightarrow> builder" where
  "dialogs_append self d =
     (case own_dialogs self of
        Some xs \<Rightarrow> self\<lparr>own_dialogs := Some (xs @ [d])\<rparr>
      | None \<Rightarrow> self\<lparr>class_dialogs := class_dialogs self @ [d]\<rparr>)"

subsection \<open>Methods\<close>

text \<open>
  \<open>append(self, dialog = [])\<close>. The call \<open>append()\<close> is \<open>append_db self (PList [])\<close>.
  The four guards on the fields come before the test \<open>dialog == []\<close>.
\<close>

definition append_db :: "builder \<Rightarrow> pyval \<Rightarrow> builder result" where
  "append_db self dialog =
     (if dialog \<noteq> PList [] \<and> \<not> is_list dialog then
        Inl (ValueError ''dialog must be a list'', self)
      else if partner_bitwise self = PNone then
        Inl (ValueError ''partner must be set'', self)
      else if pre_state_string self = PNone then
        Inl (ValueError ''pre_state must be set'', self)
      else if post_state_string self = PNone then
        Inl (ValueError ''post_state must be set'', self)
      else if dialog_string self = PNone then
        Inl (ValueError ''dialog must be set'', self)
      else
        let dialog' =
              (if dialog = PList [] then
                 PList [partner_bitwise self, pre_state_string self, condition_tuples self,
                        dialog_string self, post_state_string self, consequence_tuples self]
               else dialog);
            self' = self\<lparr>partner_bitwise := PNone,
                         pre_state_string := PNone,
                         condition_tuples := PList [],
                         dialog_string := PStr [],
                         post_state_string := PNone,
                         consequence_tuples := PList []\<rparr>
        in Inr (dialogs_append self' dialog'))"

definition build :: "builder \<Rightarrow> pyval" where
  "build self =
     PTuple [partner_bitwise self, pre_state_string self, condition_tuples self,
             dialog_string self, post_state_string self, consequence_tuples self]"

text \<open>\<open>done\<close> returns the list object and rebinds \<open>self.dialogs\<close> to a new empty list.\<close>

definition done_db :: "builder \<Rightarrow> (pyval list \<times> builder) result" where
  "done_db self =
     (case (if dialogs self = [] then append_db self (PList []) else Inr self) of
        Inl e \<Rightarrow> Inl e
      | Inr self' \<Rightarrow> Inr (dialogs self', self'\<lparr>own_dialogs := Some []\<rparr>))"

definition partner :: "builder \<Rightarrow> pyval \<Rightarrow> builder result" where
  "partner self p =
     (let self' = self\<lparr>partner_bitwise := p\<rparr>
      in case p of
           PList xs \<Rightarrow>
             (case reduce_or xs of
                Inl e \<Rightarrow> Inl (e, self')
              | Inr v \<Rightarrow> Inr (self'\<lparr>partner_bitwise := v\<rparr>))
         | _ \<Rightarrow> Inr self')"

definition pre_state :: "builder \<Rightarrow> pyval \<Rightarrow> bool \<Rightarrow> builder" where
  "pre_state self prestate on_reply =
     (let self' = self\<lparr>pre_state_string := prestate\<rparr>
      in if on_reply then self'\<lparr>pre_state_reply_string := prestate\<rparr> else self')"

definition condition :: "builder \<Rightarrow> pyval \<Rightarrow> builder result" where
  "condition self c =
     (if \<not> is_list c then Inl (ValueError ''condition must be a list'', self)
      else Inr (self\<lparr>condition_tuples := c\<rparr>))"

definition dialog :: "builder \<Rightarrow> pyval \<Rightarrow> builder" where
  "dialog self text = self\<lparr>dialog_string := text\<rparr>"

definition post_state :: "builder \<Rightarrow> pyval \<Rightarrow> builder" where
  "post_state self poststate = self\<lparr>post_state_string := poststate\<rparr>"

text \<open>The default of \<open>post_state\<close> and of \<open>reply\<close>'s \<open>poststate\<close>.\<close>

definition close_window :: pyval where
  "close_window = PStr ''close_window''"

definition state :: "builder \<Rightarrow> pyval \<Rightarrow> pyval \<Rightarrow> builder" where
  "state self prestate poststate = post_state (pre_state self prestate False) poststate"

definition consequence :: "builder \<Rightarrow> pyval \<Rightarrow> builder result" where
  "consequence self c =
     (if \<not> is_list c then Inl (ValueError ''consequence must be a list'', self)
      else append_db (self\<lparr>consequence_tuples := c\<rparr>) (PList []))"

text \<open>\<open>replies_start(self, prestate = "")\<close>: the lookup \<open>self.dialogs[-1][4]\<close> comes after
  the first \<open>pre_state\<close> call has stored the empty string.\<close>

definition replies_start :: "builder \<Rightarrow> pyval \<Rightarrow> builder result" where
  "replies_start self prestate =
     (let self' = pre_state self prestate True
      in if prestate = PStr [] then
           (case list_item (dialogs self') (- 1) of
              Inl e \<Rightarrow> Inl (e, self')
            | Inr d \<Rightarrow>
                (case getitem d 4 of
                   Inl e \<Rightarrow> Inl (e, self')
                 | Inr v \<Rightarrow> Inr (pre_state self' v True)))
         else Inr self')"

text \<open>
  \<open>reply\<close> calls \<open>self.talk(text)\<close>. The class defines no attribute \<open>talk\<close> (the text
  setter is \<open>dialog\<close>) and has no \<open>__getattr__\<close>, so the attribute lookup raises
  AttributeError before anything is called.
\<close>

definition talk :: "builder \<Rightarrow> pyval \<Rightarrow> builder result" where
  "talk self text = Inl (AttributeError ''talk'', self)"

text \<open>
  \<open>reply(self, text, poststate = "close_window", append = True)\<close>. The names \<open>anyone\<close>
  and \<open>plyr\<close> come from the module system's headers, which are not part of the
  repository; they are parameters here. \<open>do_append\<close> is the parameter \<open>append\<close>.
\<close>

definition reply :: "pyval \<Rightarrow> pyval \<Rightarrow> builder \<Rightarrow> pyval \<Rightarrow> pyval \<Rightarrow> bool \<Rightarrow> builder result" where
  "reply anyone plyr self text poststate do_append =
     (case partner self (PList [anyone, plyr]) of
        Inl e \<Rightarrow> Inl e
      | Inr s1 \<Rightarrow>
          (let s2 = pre_state s1 (pre_state_reply_string s1) False
           in case talk s2 text of
                Inl e \<Rightarrow> Inl e
              | Inr s3 \<Rightarrow>
                  (let s4 = post_state s3 poststate
                   in if do_append then append_db s4 (PList []) else Inr s4)))"

text \<open>A builder whose instance has no attribute yet, over a class list \<open>ds\<close>.\<close>

definition fresh_attrs :: attrs where
  "fresh_attrs =
     \<lparr>own_dialogs = None, partner_bitwise = PNone, pre_state_string = PNone,
      pre_state_reply_string = PNone, condition_tuples = PList [],
      dialog_string = PStr [], post_state_string = PNone,
      consequence_tuples = PList []\<rparr>"

definition self_view :: "pyval list \<Rightarrow> attrs \<Rightarrow> builder" where
  "self_view ds a = attrs.extend a (builder.fields ds)"

definition fresh :: "pyval list \<Rightarrow> builder" where
  "fresh ds = self_view ds fresh_attrs"

text \<open>The entry that \<open>append()\<close> assembles, and the fields after its reset.\<close>

definition entry :: "builder \<Rightarrow> pyval" where
  "entry self =
     PList [partner_bitwise self, pre_state_string self, condition_tuples self,
            dialog_string self, post_state_string self, consequence_tuples self]"

definition fields_unset :: "builder \<Rightarrow> bool" where
  "fields_unset self \<longleftrightarrow>
     partner_bitwise self = PNone \<and> pre_state_string self = PNone \<and>
     post_state_string self = PNone \<and> condition_tuples self = PList [] \<and>
     consequence_tuples self = PList [] \<and> dialog_string self = PStr []"

text \<open>A builder with every required field set, as the chain
  \<open>partner(1).state("start", "close_window").dialog("Hello.")\<close> leaves a new instance.\<close>

definition complete_builder :: builder where
  "complete_builder =
     dialog (state ((fresh [])\<lparr>partner_bitwise := PInt 1\<rparr>) (PStr ''start'') close_window)
       (PStr ''Hello.'')"

text \<open>The entry that \<open>complete_builder\<close> holds, and the builder after \<open>done()\<close> on it.\<close>

definition hello_entry :: pyval where
  "hello_entry =
     PList [PInt 1, PStr ''start'', PList [], PStr ''Hello.'', PStr ''close_window'', PList []]"

definition after_done :: builder where
  "after_done = (fresh [hello_entry])\<lparr>own_dialogs := Some []\<rparr>"

text \<open>A builder on which only \<open>partner(1)\<close> has been called.\<close>

definition partner_only_builder :: builder where
  "partner_only_builder = (fresh [])\<lparr>partner_bitwise := PInt 1\<rparr>"

subsection \<open>Several instances\<close>

text \<open>
  The program's heap, as far as \<open>DialogBuilder\<close> reaches: the list object bound to the
  class attribute \<open>dialogs\<close>, and the instances by address. \<open>DialogBuilder()\<close> has no
  \<open>__init__\<close>: it allocates an instance without attributes and touches nothing else.
  A method call on the instance at address \<open>i\<close> runs the method on that instance's
  view and writes the instance and the class's list back, also when it raises.
\<close>

record world =
  class_list :: "pyval list"
  objs :: "nat \<Rightarrow> attrs"
  next_id :: nat

definition empty_world :: world where
  "empty_world = \<lparr>class_list = [], objs = (\<lambda>i. fresh_attrs), next_id = 0\<rparr>"

definition construct :: "world \<Rightarrow> nat \<times> world" where
  "construct w =
     (next_id w, w\<lparr>objs := (objs w)(next_id w := fresh_attrs), next_id := Suc (next_id w)\<rparr>)"

definition load :: "world \<Rightarrow> nat \<Rightarrow> builder" where
  "load w i = self_view (class_list w) (objs w i)"

definition store :: "world \<Rightarrow> nat \<Rightarrow> builder \<Rightarrow> world" where
  "store w i b = w\<lparr>class_list := class_dialogs b, objs := (objs w)(i := attrs.truncate b)\<rparr>"

definition call :: "(builder \<Rightarrow> builder result) \<Rightarrow> nat \<Rightarrow> world \<Rightarrow> (error \<times> world) + world" where
  "call m i w =
     (case m (load w i) of
        Inl (e, b) \<Rightarrow> Inl (e, store w i b)
      | Inr b \<Rightarrow> Inr (store w i b))"

definition call_done :: "nat \<Rightarrow> world \<Rightarrow> (error \<times> world) + (pyval list \<times> world)" where
  "call_done i w =
     (case done_db (load w i) of
        Inl (e, b) \<Rightarrow> Inl (e, store w i b)
      | Inr (ds, b) \<Rightarrow> Inr (ds, store w i b))"

text \<open>Sequencing of calls: the first exception ends the script.\<close>

definition and_then :: "'e + 'a \<Rightarrow> ('a \<Rightarrow> 'e + 'b) \<Rightarrow> 'e + 'b" where
  "and_then r f = (case r of Inl e \<Rightarrow> Inl e | Inr x \<Rightarrow> f x)"

text \<open>
  The script
  \<^verbatim>\<open>
  a = DialogBuilder(); b = DialogBuilder()
  a.partner(1).state("start", "next")
  first = a.done()
  a.partner(2).state("next", "close_window").append()
  second = b.done()
  third = a.dialogs
  \<close>
  with the values of \<open>first\<close>, \<open>second\<close> and \<open>third\<close> as they are returned.
\<close>

definition two_builders :: "(error \<times> world) + (pyval list \<times> pyval list \<times> pyval list)" where
  "two_builders =
     (let (a, w0) = construct empty_world; (b, w1) = construct w0
      in and_then (call (\<lambda>s. partner s (PInt 1)) a w1) (\<lambda>w2.
         and_then (call (\<lambda>s. Inr (state s (PStr ''start'') (PStr ''next''))) a w2) (\<lambda>w3.
         and_then (call_done a w3) (\<lambda>(first, w4).
         and_then (call (\<lambda>s. partner s (PInt 2)) a w4) (\<lambda>w5.
         and_then (call (\<lambda>s. Inr (state s (PStr ''next'') close_window)) a w5) (\<lambda>w6.
         and_then (call (\<lambda>s. append_db s (PList [])) a w6) (\<lambda>w7.
         and_then (call_done b w7) (\<lambda>(second, w8).
           Inr (first, second, dialogs (load w8 a))))))))))"

text \<open>
  Two instances that have not called \<open>done\<close>, the first with the fields of
  \<open>complete_builder\<close>, and the heap after \<open>append()\<close> on the first.
\<close>

definition two_sharing :: world where
  "two_sharing =
     \<lparr>class_list = [],
      objs = (\<lambda>i. fresh_attrs)(0 := attrs.truncate complete_builder),
      next_id = 2\<rparr>"

definition two_sharing_appended :: world where
  "two_sharing_appended = store two_sharing 0 (fresh [hello_entry])"

section \<open>OperatorBuilder\<close>

text \<open>\<open>__init__\<close> gives every instance its own list \<open>tuples\<close>.\<close>

record op_builder =
  tuples :: "pyval list"

definition init_ob :: op_builder where
  "init_ob = \<lparr>tuples = []\<rparr>"

definition append_ob :: "op_builder \<Rightarrow> pyval \<Rightarrow> op_builder" where
  "append_ob self item = self\<lparr>tuples := tuples self @ [item]\<rparr>"

text \<open>
  The expression shared by the variadic methods,
  \<open>tuple(j for i in operation for j in (i if type(i) is tuple else (i,)))\<close>.
\<close>

definition flattened :: "pyval list \<Rightarrow> pyval" where
  "flattened operation =
     PTuple [j. i \<leftarrow> operation, j \<leftarrow> (case i of PTuple js \<Rightarrow> js | _ \<Rightarrow> [i])]"

text \<open>\<open>tuple(self, *args)\<close>: \<open>operation = (args)\<close> is the argument tuple itself.\<close>

definition tuple :: "op_builder \<Rightarrow> pyval list \<Rightarrow> op_builder" where
  "tuple self args = append_ob self (flattened args)"

definition done_ob :: "op_builder \<Rightarrow> pyval list" where
  "done_ob self = tuples self"

text \<open>
  \<open>call_script(self, script, *args)\<close>. Inside the method the name \<open>call_script\<close> is the
  opcode constant of the module system's headers, which are not part of the repository:
  it is the parameter \<open>opcode\<close>, as in the other methods below. The test raises before
  anything is appended.
\<close>

definition call_script :: "pyval \<Rightarrow> op_builder \<Rightarrow> pyval \<Rightarrow> pyval list \<Rightarrow> error + op_builder" where
  "call_script opcode self script args =
     (if length args > 16 then
        Inl (ValueError
          ''Maximum number of parameters you can pass with the operation is 16.'')
      else Inr (append_ob self (flattened [opcode, script, PTuple args])))"

text \<open>
  The other method with \<open>*args\<close>, \<open>set_shader_param_float4x4(self, parameter_name, *args)\<close>.
  (\<open>try_for_prop_instances\<close> takes \<open>**args\<close>, a dictionary of keyword arguments that it
  passes on as one element; every remaining method has a fixed parameter list and the
  body \<open>return self.append((opcode, ...))\<close>.)
\<close>

definition set_shader_param_float4x4 :: "pyval \<Rightarrow> op_builder \<Rightarrow> pyval \<Rightarrow> pyval list \<Rightarrow> op_builder" where
  "set_shader_param_float4x4 opcode self parameter_name args =
     append_ob self (flattened [opcode, parameter_name, PTuple args])"

text \<open>
  The flattening as the specification words it: each tuple argument's elements are
  spliced in place, one level deep, and every other argument passes through unchanged.
\<close>

fun splice :: "pyval list \<Rightarrow> pyval list" where
  "splice [] = []"
| "splice (PTuple ys # rest) = ys @ splice rest"
| "splice (v # rest) = v # splice rest"

section \<open>Properties of DialogBuilder\<close>

lemmas view_simps = self_view_def fresh_def fresh_attrs_def attrs.defs builder.defs

lemmas example_simps =
  complete_builder_def dialog_def state_def post_state_def pre_state_def close_window_def
  dialogs_def view_simps

lemma dialogs_dialogs_append: "dialogs (dialogs_append s d) = dialogs s @ [d]"
  by (simp add: dialogs_def dialogs_append_def split: option.splits)

lemma dialogs_pre_state: "dialogs (pre_state s x r) = dialogs s"
  by (simp add: dialogs_def pre_state_def Let_def split: option.splits)

lemma fields_dialogs_append [simp]:
  "partner_bitwise (dialogs_append s d) = partner_bitwise s"
  "pre_state_string (dialogs_append s d) = pre_state_string s"
  "pre_state_reply_string (dialogs_append s d) = pre_state_reply_string s"
  "condition_tuples (dialogs_append s d) = condition_tuples s"
  "dialog_string (dialogs_append s d) = dialog_string s"
  "post_state_string (dialogs_append s d) = post_state_string s"
  "consequence_tuples (dialogs_append s d) = consequence_tuples s"
  by (simp_all add: dialogs_append_def split: option.splits)

lemma dialogs_reset [simp]:
  "dialogs (s\<lparr>partner_bitwise := a, pre_state_string := b, condition_tuples := c,
          dialog_string := d, post_state_string := e,
          consequence_tuples := f\<rparr>) = dialogs s"
  by (simp add: dialogs_def split: option.splits)

subsection \<open>The guards of \<open>append\<close>, in their order\<close>

lemma append_db_missing_partner:
  "is_list d \<Longrightarrow> partner_bitwise s = PNone \<Longrightarrow>
     append_db s d = Inl (ValueError ''partner must be set'', s)"
  by (simp add: append_db_def)

lemma append_db_missing_pre_state:
  "is_list d \<Longrightarrow> partner_bitwise s \<noteq> PNone \<Longrightarrow> pre_state_string s = PNone \<Longrightarrow>
     append_db s d = Inl (ValueError ''pre_state must be set'', s)"
  by (simp add: append_db_def)

lemma append_db_missing_post_state:
  "is_list d \<Longrightarrow> partner_bitwise s \<noteq> PNone \<Longrightarrow> pre_state_string s \<noteq> PNone \<Longrightarrow>
   post_state_string s = PNone \<Longrightarrow>
     append_db s d = Inl (ValueError ''post_state must be set'', s)"
  by (simp add: append_db_def)

lemma append_db_ok:
  assumes "is_list d" "partner_bitwise s \<noteq> PNone" "pre_state_string s \<noteq> PNone"
    "post_state_string s \<noteq> PNone" "dialog_string s \<noteq> PNone"
  shows "append_db s d =
     Inr (dialogs_append
       (s\<lparr>partner_bitwise := PNone, pre_state_string := PNone, condition_tuples := PList [],
          dialog_string := PStr [], post_state_string := PNone,
          consequence_tuples := PList []\<rparr>)
       (if d = PList [] then entry s else d))"
  using assms by (simp add: append_db_def entry_def Let_def)

subsection \<open>Emitting a complete entry\<close>

text \<open>
  C5. In a builder whose partner, pre-state, post-state and text are all set (none is
  \<open>None\<close>), \<open>append()\<close> succeeds, the output sequence grows by exactly the entry
  (speaker, pre_state, conditions, text, post_state, consequences) with the current
  value of each field, and afterwards partner, pre-state and post-state are \<open>None\<close>,
  conditions and consequences are the empty list and the text is the empty string.
\<close>

theorem append_complete_chain:
  assumes "partner_bitwise s \<noteq> PNone" "pre_state_string s \<noteq> PNone"
    "post_state_string s \<noteq> PNone" "dialog_string s \<noteq> PNone"
  shows "\<exists>s'. append_db s (PList []) = Inr s' \<and>
     dialogs s' = dialogs s @
       [PList [partner_bitwise s, pre_state_string s, condition_tuples s,
               dialog_string s, post_state_string s, consequence_tuples s]] \<and>
     partner_bitwise s' = PNone \<and> pre_state_string s' = PNone \<and>
     post_state_string s' = PNone \<and> condition_tuples s' = PList [] \<and>
     consequence_tuples s' = PList [] \<and> dialog_string s' = PStr ''''"
  using assms by (simp add: append_db_ok dialogs_dialogs_append entry_def)

theorem append_complete_chain_witness:
  "partner_bitwise complete_builder \<noteq> PNone \<and> pre_state_string complete_builder \<noteq> PNone \<and>
   post_state_string complete_builder \<noteq> PNone \<and> dialog_string complete_builder \<noteq> PNone \<and>
   (\<exists>s'. append_db complete_builder (PList []) = Inr s' \<and>
      dialogs s' =
        [PList [PInt 1, PStr ''start'', PList [], PStr ''Hello.'', PStr ''close_window'',
                PList []]] \<and>
      partner_bitwise s' = PNone \<and> pre_state_string s' = PNone \<and>
      post_state_string s' = PNone \<and> condition_tuples s' = PList [] \<and>
      consequence_tuples s' = PList [] \<and> dialog_string s' = PStr '''')"
  using append_complete_chain [of complete_builder] by (simp add: example_simps)

subsection \<open>Missing fields\<close>

text \<open>
  C1. The claim holds for partner, pre-state and post-state (the three lemmas on the
  guards above), and fails for the text: its unset value is the empty string, the guard
  compares with \<open>None\<close>. The chain \<open>partner(1).state("start", "close_window")\<close> on a new
  instance leaves the text unset, and \<open>append()\<close> on it raises nothing: it appends
  the entry with the empty text and leaves a builder with no field set.
\<close>

theorem append_accepts_unset_text:
  "dialog_string partner_only_builder = PStr '''' \<and>
   append_db (state partner_only_builder (PStr ''start'') close_window) (PList []) =
     Inr (fresh [PList [PInt 1, PStr ''start'', PList [], PStr '''', PStr ''close_window'',
                       PList []]])"
  by (simp add: append_db_def dialogs_append_def partner_only_builder_def example_simps)

subsection \<open>An explicit entry\<close>

lemma append_db_InrD:
  "append_db s d = Inr s' \<Longrightarrow>
     s' = dialogs_append
       (s\<lparr>partner_bitwise := PNone, pre_state_string := PNone, condition_tuples := PList [],
          dialog_string := PStr [], post_state_string := PNone,
          consequence_tuples := PList []\<rparr>)
       (if d = PList [] then entry s else d)"
  by (simp add: append_db_def entry_def Let_def split: if_splits)

text \<open>
  C3, as claimed, fails: on a new instance \<open>append([1])\<close> raises the error of the first
  guard, and nothing is appended.
\<close>

theorem append_explicit_entry_counterexample:
  "append_db (fresh []) (PList [PInt 1]) = Inl (ValueError ''partner must be set'', fresh [])"
  by (simp add: append_db_def view_simps)

text \<open>
  C3, amended. For an explicit entry \<open>d\<close> that is a list: in a builder whose partner,
  pre-state and post-state are set (and whose text is not \<open>None\<close>), \<open>append(d)\<close> with
  \<open>d\<close> non-empty appends \<open>d\<close> as it is and resets every per-entry field; in a builder
  where one of partner, pre-state, post-state is \<open>None\<close> it raises the error of the
  first field missing, in the order partner, pre-state, post-state, and leaves the
  builder as it was.
\<close>

theorem append_explicit_entry:
  assumes "is_list d"
  shows "(partner_bitwise s \<noteq> PNone \<and> pre_state_string s \<noteq> PNone \<and>
          post_state_string s \<noteq> PNone \<and> dialog_string s \<noteq> PNone \<and> d \<noteq> PList [] \<longrightarrow>
            (\<exists>s'. append_db s d = Inr s' \<and> dialogs s' = dialogs s @ [d] \<and> fields_unset s'))
       \<and> (partner_bitwise s = PNone \<longrightarrow>
            append_db s d = Inl (ValueError ''partner must be set'', s))
       \<and> (partner_bitwise s \<noteq> PNone \<and> pre_state_string s = PNone \<longrightarrow>
            append_db s d = Inl (ValueError ''pre_state must be set'', s))
       \<and> (partner_bitwise s \<noteq> PNone \<and> pre_state_string s \<noteq> PNone \<and>
          post_state_string s = PNone \<longrightarrow>
            append_db s d = Inl (ValueError ''post_state must be set'', s))"
  using assms
  by (simp add: append_db_missing_partner append_db_missing_pre_state
      append_db_missing_post_state append_db_ok dialogs_dialogs_append fields_unset_def)

theorem append_explicit_entry_witness:
  "is_list (PList [PInt 7]) \<and>
   partner_bitwise complete_builder \<noteq> PNone \<and> pre_state_string complete_builder \<noteq> PNone \<and>
   post_state_string complete_builder \<noteq> PNone \<and> dialog_string complete_builder \<noteq> PNone \<and>
   PList [PInt 7] \<noteq> PList [] \<and>
   (\<exists>s'. append_db complete_builder (PList [PInt 7]) = Inr s' \<and>
         dialogs s' = [PList [PInt 7]] \<and> fields_unset s') \<and>
   partner_bitwise (fresh []) = PNone \<and>
   append_db (fresh []) (PList [PInt 7]) = Inl (ValueError ''partner must be set'', fresh [])"
  using append_explicit_entry [of "PList [PInt 7]" complete_builder]
    append_explicit_entry [of "PList [PInt 7]" "fresh []"]
  by (simp add: example_simps)

subsection \<open>\<open>done\<close>\<close>

lemma dialogs_rebound [simp]: "dialogs (s\<lparr>own_dialogs := Some xs\<rparr>) = xs"
  by (simp add: dialogs_def)

lemma done_db_Inr_cleared: "done_db s = Inr (ds, s') \<Longrightarrow> dialogs s' = []"
  by (auto simp add: done_db_def split: sum.splits if_splits)

lemma done_db_on_empty:
  assumes "dialogs s = []" "done_db s = Inr (ds, s')"
  shows "ds = [entry s]"
proof -
  from assms obtain s1 where a: "append_db s (PList []) = Inr s1" and ds: "ds = dialogs s1"
    by (auto simp add: done_db_def split: sum.splits)
  from append_db_InrD [OF a] have "dialogs s1 = dialogs s @ [entry s]"
    by (simp add: dialogs_dialogs_append)
  with ds assms(1) show ?thesis by simp
qed

lemma done_db_finalizes:
  assumes "dialogs s = []" "partner_bitwise s \<noteq> PNone" "pre_state_string s \<noteq> PNone"
    "post_state_string s \<noteq> PNone" "dialog_string s \<noteq> PNone"
  shows "\<exists>s'. done_db s = Inr ([entry s], s') \<and> dialogs s' = [] \<and> fields_unset s' \<and>
           done_db s' = Inl (ValueError ''partner must be set'', s')"
proof -
  let ?r = "dialogs_append
       (s\<lparr>partner_bitwise := PNone, pre_state_string := PNone, condition_tuples := PList [],
          dialog_string := PStr [], post_state_string := PNone,
          consequence_tuples := PList []\<rparr>) (entry s)"
  let ?s' = "?r\<lparr>own_dialogs := Some []\<rparr>"
  have a: "append_db s (PList []) = Inr ?r"
    using assms by (simp add: append_db_ok)
  have d: "dialogs ?r = [entry s]"
    using assms(1) by (simp add: dialogs_dialogs_append)
  have 1: "done_db s = Inr ([entry s], ?s')"
    using assms(1) a d by (simp add: done_db_def)
  have 2: "fields_unset ?s'"
    by (simp add: fields_unset_def)
  have 3: "done_db ?s' = Inl (ValueError ''partner must be set'', ?s')"
    by (simp add: done_db_def append_db_def)
  from 1 2 3 show ?thesis by (intro exI [of _ ?s']) simp
qed

text \<open>
  C4, as claimed, fails twice. \<open>done()\<close> on \<open>complete_builder\<close> returns its one entry,
  and the second \<open>done()\<close> right after it raises: the sequence is empty again, so
  \<open>append()\<close> runs again, on fields the first call has reset. And \<open>done()\<close> on a builder
  with one required field set (the partner) raises instead of finalizing.
\<close>

theorem done_counterexample:
  "done_db complete_builder = Inr ([hello_entry], after_done) \<and>
   done_db after_done = Inl (ValueError ''partner must be set'', after_done) \<and>
   done_db partner_only_builder =
     Inl (ValueError ''pre_state must be set'', partner_only_builder)"
  by (simp add: done_db_def append_db_def dialogs_append_def hello_entry_def after_done_def
      partner_only_builder_def example_simps)

text \<open>
  C4, amended. On a builder whose sequence is empty and whose partner, pre-state and
  post-state are all set (the text not \<open>None\<close>), \<open>done()\<close> finalizes the entry in
  progress, returns the sequence holding just that entry and leaves the sequence empty
  and the fields reset; a second \<open>done()\<close> right after it raises "partner must be set".
  On an empty sequence with a required field missing, \<open>done()\<close> raises the error of
  that field. After any \<open>done()\<close> that returned, the sequence is empty, and the next
  \<open>done()\<close> never returns an empty sequence: it raises when the partner is unset, and
  whenever it returns, it returns exactly the one entry it has just finalized.
\<close>

theorem done_finalizes_once:
  "(dialogs s = [] \<and> partner_bitwise s \<noteq> PNone \<and> pre_state_string s \<noteq> PNone \<and>
    post_state_string s \<noteq> PNone \<and> dialog_string s \<noteq> PNone \<longrightarrow>
      (\<exists>s'. done_db s = Inr ([entry s], s') \<and> dialogs s' = [] \<and> fields_unset s' \<and>
            done_db s' = Inl (ValueError ''partner must be set'', s')))
   \<and> (dialogs s = [] \<and> partner_bitwise s = PNone \<longrightarrow>
        done_db s = Inl (ValueError ''partner must be set'', s))
   \<and> (dialogs s = [] \<and> partner_bitwise s \<noteq> PNone \<and> pre_state_string s = PNone \<longrightarrow>
        done_db s = Inl (ValueError ''pre_state must be set'', s))
   \<and> (dialogs s = [] \<and> partner_bitwise s \<noteq> PNone \<and> pre_state_string s \<noteq> PNone \<and>
      post_state_string s = PNone \<longrightarrow>
        done_db s = Inl (ValueError ''post_state must be set'', s))
   \<and> (\<forall>ds s'. done_db s = Inr (ds, s') \<longrightarrow>
        dialogs s' = [] \<and>
        (partner_bitwise s' = PNone \<longrightarrow>
           done_db s' = Inl (ValueError ''partner must be set'', s')) \<and>
        (\<forall>ds2 s2. done_db s' = Inr (ds2, s2) \<longrightarrow> ds2 = [entry s']))"
proof -
  have later: "dialogs s' = [] \<and>
        (partner_bitwise s' = PNone \<longrightarrow>
           done_db s' = Inl (ValueError ''partner must be set'', s')) \<and>
        (\<forall>ds2 s2. done_db s' = Inr (ds2, s2) \<longrightarrow> ds2 = [entry s'])"
    if "done_db s = Inr (ds, s')" for ds s'
  proof -
    from that have e: "dialogs s' = []" by (rule done_db_Inr_cleared)
    have p: "done_db s' = Inl (ValueError ''partner must be set'', s')"
      if "partner_bitwise s' = PNone"
      using that e by (simp add: done_db_def append_db_def)
    have r: "ds2 = [entry s']" if "done_db s' = Inr (ds2, s2)" for ds2 s2
      using e that by (rule done_db_on_empty)
    from e p r show ?thesis by blast
  qed
  have c1: "dialogs s = [] \<and> partner_bitwise s = PNone \<longrightarrow>
        done_db s = Inl (ValueError ''partner must be set'', s)"
    by (simp add: done_db_def append_db_missing_partner)
  have c2: "dialogs s = [] \<and> partner_bitwise s \<noteq> PNone \<and> pre_state_string s = PNone \<longrightarrow>
        done_db s = Inl (ValueError ''pre_state must be set'', s)"
    by (simp add: done_db_def append_db_missing_pre_state)
  have c3: "dialogs s = [] \<and> partner_bitwise s \<noteq> PNone \<and> pre_state_string s \<noteq> PNone \<and>
      post_state_string s = PNone \<longrightarrow>
        done_db s = Inl (ValueError ''post_state must be set'', s)"
    by (simp add: done_db_def append_db_missing_post_state)
  from done_db_finalizes [of s] later c1 c2 c3 show ?thesis by blast
qed

theorem done_finalizes_once_witness:
  "dialogs complete_builder = [] \<and>
   partner_bitwise complete_builder \<noteq> PNone \<and> pre_state_string complete_builder \<noteq> PNone \<and>
   post_state_string complete_builder \<noteq> PNone \<and> dialog_string complete_builder \<noteq> PNone \<and>
   (\<exists>s'. done_db complete_builder = Inr ([hello_entry], s') \<and> dialogs s' = [] \<and>
         fields_unset s' \<and> done_db s' = Inl (ValueError ''partner must be set'', s'))"
  using done_finalizes_once [of complete_builder, THEN conjunct1]
  by (simp add: example_simps entry_def hello_entry_def)

subsection \<open>\<open>partner\<close>\<close>

lemma reduce_from_ints:
  "reduce_from (PInt a) (map PInt xs) = Inr (PInt (foldl (OR) a xs))"
  by (induction xs arbitrary: a) simp_all

text \<open>
  C8. For a non-empty list of integer identifiers \<open>x, xs\<close>, \<open>partner\<close> stores the
  bitwise OR of all elements, folded from the left, which is what \<open>partner\<close> stores when
  given that OR as a single identifier; for three elements this is \<open>(a | b) | c\<close>. An
  argument that is not a list is stored as it is.
\<close>

theorem partner_list_is_or:
  "partner s (PList (map PInt (x # xs))) = Inr (s\<lparr>partner_bitwise := PInt (foldl (OR) x xs)\<rparr>)
   \<and> partner s (PList (map PInt (x # xs))) = partner s (PInt (foldl (OR) x xs))
   \<and> partner s (PList [PInt a, PInt b, PInt c]) = partner s (PInt ((a OR b) OR c))
   \<and> (\<not> is_list v \<longrightarrow> partner s v = Inr (s\<lparr>partner_bitwise := v\<rparr>))"
  by (cases v) (simp_all add: partner_def reduce_from_ints Let_def)

theorem partner_list_is_or_witness:
  "\<not> is_list (PInt 5) \<and>
   partner (fresh []) (PInt 5) = Inr ((fresh [])\<lparr>partner_bitwise := PInt 5\<rparr>) \<and>
   partner (fresh []) (PList [PInt 1, PInt 2, PInt 4]) =
     Inr ((fresh [])\<lparr>partner_bitwise := PInt 7\<rparr>)"
  using partner_list_is_or [of "fresh []" 1 "[2, 4]" 1 2 4 "PInt 5"] by simp

subsection \<open>Replies\<close>

lemma list_item_last_Nil: "list_item [] (- 1) = Inl IndexError"
  by (simp add: list_item_def)

lemma list_item_last_snoc: "list_item (xs @ [x]) (- 1) = Inr x"
  by (simp add: list_item_def nth_append)

text \<open>
  C10. On a builder whose sequence is empty, \<open>replies_start()\<close> with the default
  pre-state raises IndexError at \<open>self.dialogs[-1]\<close>, after it has stored the empty
  string as pre-state and as reply base state; so the call can only return when the
  sequence is not empty. When the last entry is a six-element entry as \<open>append()\<close>
  builds it, the call returns with that entry's post-state as pre-state and as reply
  base state.
\<close>

theorem replies_start_needs_entry:
  "(dialogs s = [] \<longrightarrow>
      replies_start s (PStr []) = Inl (IndexError, pre_state s (PStr []) True))
   \<and> (\<forall>s'. replies_start s (PStr []) = Inr s' \<longrightarrow> dialogs s \<noteq> [])
   \<and> (dialogs s = ds @ [PList [p, a, c, t, b, k]] \<longrightarrow>
        replies_start s (PStr []) = Inr (pre_state (pre_state s (PStr []) True) b True))"
proof -
  have empty: "replies_start s (PStr []) = Inl (IndexError, pre_state s (PStr []) True)"
    if "dialogs s = []"
    using that by (simp add: replies_start_def Let_def dialogs_pre_state list_item_last_Nil)
  have entry: "replies_start s (PStr []) = Inr (pre_state (pre_state s (PStr []) True) b True)"
    if "dialogs s = ds @ [PList [p, a, c, t, b, k]]"
    using that
    by (simp add: replies_start_def Let_def dialogs_pre_state list_item_last_snoc
        list_item_def)
  from empty entry show ?thesis by auto
qed

theorem replies_start_needs_entry_witness:
  "dialogs (fresh []) = [] \<and>
   replies_start (fresh []) (PStr []) =
     Inl (IndexError,
          (fresh [])\<lparr>pre_state_string := PStr [], pre_state_reply_string := PStr []\<rparr>) \<and>
   dialogs (fresh [hello_entry]) = [] @ [hello_entry] \<and>
   replies_start (fresh [hello_entry]) (PStr []) =
     Inr ((fresh [hello_entry])\<lparr>pre_state_string := PStr ''close_window'',
                                pre_state_reply_string := PStr ''close_window''\<rparr>) \<and>
   dialogs (fresh [hello_entry]) \<noteq> []"
  using replies_start_needs_entry [of "fresh []"]
    replies_start_needs_entry [of "fresh [hello_entry]" "[]" "PInt 1" "PStr ''start''"
      "PList []" "PStr ''Hello.''" "PStr ''close_window''" "PList []"]
  by (simp add: hello_entry_def pre_state_def dialogs_def view_simps)

text \<open>
  C2. \<open>reply\<close> never returns: with integer \<open>anyone\<close> and \<open>plyr\<close> it sets the speaker to
  their OR and the pre-state to the reply base state, and then raises AttributeError at
  \<open>self.talk\<close>; nothing is appended, whatever the text, the post-state and the
  \<open>append\<close> flag are. With any other \<open>anyone\<close> and \<open>plyr\<close> it raises as well.
\<close>

theorem reply_raises_AttributeError:
  "reply (PInt anyone) (PInt plyr) s t q b =
     Inl (AttributeError ''talk'',
          s\<lparr>partner_bitwise := PInt (anyone OR plyr),
            pre_state_string := pre_state_reply_string s\<rparr>)
   \<and> (\<forall>a p r. reply a p s t q b \<noteq> Inr r)"
  by (simp add: reply_def talk_def partner_def pre_state_def Let_def split: sum.splits)

subsection \<open>Several instances\<close>

lemma own_dialogs_self_view [simp]: "own_dialogs (self_view ds a) = own_dialogs a"
  by (simp add: view_simps)

lemma class_dialogs_self_view [simp]: "class_dialogs (self_view ds a) = ds"
  by (simp add: view_simps)

lemma dialogs_self_view_shared:
  "own_dialogs a = None \<Longrightarrow> dialogs (self_view ds a) = ds"
  by (simp add: dialogs_def)

lemma class_dialogs_append_shared:
  "own_dialogs s = None \<Longrightarrow>
     class_dialogs (dialogs_append
       (s\<lparr>partner_bitwise := a, pre_state_string := b, condition_tuples := c,
          dialog_string := d, post_state_string := e, consequence_tuples := f\<rparr>) x)
     = class_dialogs s @ [x]"
  by (simp add: dialogs_append_def)

lemma call_append_shared:
  assumes "own_dialogs (objs w i) = None" "call (\<lambda>s. append_db s d) i w = Inr w1"
  shows "class_list w1 = class_list w @ [if d = PList [] then entry (load w i) else d]"
    and "j \<noteq> i \<Longrightarrow> objs w1 j = objs w j"
proof -
  from assms(2) obtain b where a: "append_db (load w i) d = Inr b" and w1: "w1 = store w i b"
    by (auto simp add: call_def split: sum.splits prod.splits)
  have "own_dialogs (load w i) = None" using assms(1) by (simp add: load_def)
  with append_db_InrD [OF a]
  have "class_dialogs b = class_dialogs (load w i) @ [if d = PList [] then entry (load w i) else d]"
    by (simp only: class_dialogs_append_shared)
  then show "class_list w1 = class_list w @ [if d = PList [] then entry (load w i) else d]"
    by (simp add: w1 store_def load_def)
  show "j \<noteq> i \<Longrightarrow> objs w1 j = objs w j"
    by (simp add: w1 store_def)
qed

lemma call_done_shared:
  assumes "own_dialogs (objs w j) = None" "class_list w \<noteq> []"
  shows "\<exists>w'. call_done j w = Inr (class_list w, w')"
  using assms by (simp add: call_done_def done_db_def load_def dialogs_self_view_shared)

text \<open>
  C9, as claimed, fails: an instance shares the class's list only until its first
  \<open>done()\<close>. In the script \<open>two_builders\<close> the entry that \<open>a\<close> appends after its
  \<open>done()\<close> goes to \<open>a\<close>'s own list (\<open>third\<close>); \<open>b.done()\<close> does not return it, it
  returns the entry that \<open>a.done()\<close> has returned already, which is still in the
  class's list.
\<close>

theorem two_builders_counterexample:
  "two_builders =
     Inr ([PList [PInt 1, PStr ''start'', PList [], PStr '''', PStr ''next'', PList []]],
          [PList [PInt 1, PStr ''start'', PList [], PStr '''', PStr ''next'', PList []]],
          [PList [PInt 2, PStr ''next'', PList [], PStr '''', PStr ''close_window'',
                  PList []]])"
  by (simp add: two_builders_def construct_def empty_world_def call_def call_done_def
      and_then_def load_def store_def partner_def state_def post_state_def pre_state_def
      done_db_def append_db_def dialogs_append_def dialogs_def close_window_def Let_def
      view_simps)

text \<open>
  C9, amended. Between two different instances neither of which has called \<open>done()\<close>
  yet (neither has a \<open>dialogs\<close> attribute of its own), an entry appended through one
  is in the sequence that \<open>done()\<close> on the other returns, as its last element after
  all that the class's list held before. Constructing an instance leaves the class's
  list as it is, and the new instance sees all of it.
\<close>

theorem class_list_shared_until_done:
  "(i \<noteq> j \<and> own_dialogs (objs w i) = None \<and> own_dialogs (objs w j) = None \<and>
    call (\<lambda>s. append_db s d) i w = Inr w1 \<longrightarrow>
      (\<exists>w2. call_done j w1 =
          Inr (class_list w @ [if d = PList [] then entry (load w i) else d], w2)))
   \<and> class_list (snd (construct w)) = class_list w
   \<and> dialogs (load (snd (construct w)) (fst (construct w))) = class_list w"
proof -
  have shared: "\<exists>w2. call_done j w1 =
          Inr (class_list w @ [if d = PList [] then entry (load w i) else d], w2)"
    if "i \<noteq> j" "own_dialogs (objs w i) = None" "own_dialogs (objs w j) = None"
      "call (\<lambda>s. append_db s d) i w = Inr w1"
  proof -
    from call_append_shared [OF that(2) that(4)] that(1)
    have c: "class_list w1 = class_list w @ [if d = PList [] then entry (load w i) else d]"
      and o: "objs w1 j = objs w j" by auto
    from o that(3) have "own_dialogs (objs w1 j) = None" by simp
    moreover from c have "class_list w1 \<noteq> []" by simp
    ultimately obtain w2 where "call_done j w1 = Inr (class_list w1, w2)"
      using call_done_shared by blast
    with c show ?thesis by auto
  qed
  have new: "class_list (snd (construct w)) = class_list w"
    by (simp add: construct_def)
  have sees: "dialogs (load (snd (construct w)) (fst (construct w))) = class_list w"
    by (simp add: construct_def load_def dialogs_self_view_shared fresh_attrs_def)
  from shared new sees show ?thesis by blast
qed

theorem class_list_shared_until_done_witness:
  "(0::nat) \<noteq> 1 \<and> own_dialogs (objs two_sharing 0) = None \<and>
   own_dialogs (objs two_sharing 1) = None \<and>
   call (\<lambda>s. append_db s (PList [])) 0 two_sharing = Inr two_sharing_appended \<and>
   (\<exists>w2. call_done 1 two_sharing_appended = Inr ([hello_entry], w2))"
proof -
  have h: "(0::nat) \<noteq> 1 \<and> own_dialogs (objs two_sharing 0) = None \<and>
     own_dialogs (objs two_sharing 1) = None \<and>
     call (\<lambda>s. append_db s (PList [])) 0 two_sharing = Inr two_sharing_appended"
    by (simp add: two_sharing_def two_sharing_appended_def call_def load_def store_def
        append_db_def dialogs_append_def hello_entry_def example_simps)
  have e: "class_list two_sharing @
        [if PList [] = PList [] then entry (load two_sharing 0) else PList []] = [hello_entry]"
    by (simp add: two_sharing_def load_def entry_def hello_entry_def example_simps)
  from class_list_shared_until_done
    [of 0 1 two_sharing "PList []" two_sharing_appended, THEN conjunct1] h
  have "\<exists>w2. call_done 1 two_sharing_appended =
      Inr (class_list two_sharing @
        [if PList [] = PList [] then entry (load two_sharing 0) else PList []], w2)"
    by blast
  with e h show ?thesis by simp
qed

section \<open>Properties of OperatorBuilder\<close>

lemma flattened_splice: "flattened args = PTuple (splice args)"
  by (induction args rule: splice.induct) (simp_all add: flattened_def)

text \<open>
  C6. \<open>tuple(*args)\<close> appends one tuple, the splice of the arguments: the elements of
  every tuple argument in its place, every other argument unchanged. So
  \<open>tuple(a, (b, c), d)\<close> with \<open>a\<close> and \<open>d\<close> no tuples appends \<open>(a, b, c, d)\<close>, and
  \<open>tuple(((x, y), z))\<close> appends \<open>((x, y), z)\<close>: the inner tuple stays.
\<close>

theorem tuple_splices_one_level:
  "tuple s args = s\<lparr>tuples := tuples s @ [PTuple (splice args)]\<rparr>
   \<and> (\<not> is_tuple a \<and> \<not> is_tuple d \<longrightarrow>
        tuple s [a, PTuple [b, c], d] = s\<lparr>tuples := tuples s @ [PTuple [a, b, c, d]]\<rparr>)
   \<and> tuple s [PTuple [PTuple [x, y], z]] = s\<lparr>tuples := tuples s @ [PTuple [PTuple [x, y], z]]\<rparr>"
  by (cases a; cases d) (simp_all add: tuple_def append_ob_def flattened_splice)

theorem tuple_splices_one_level_witness:
  "\<not> is_tuple (PInt 1) \<and> \<not> is_tuple (PStr ''d'') \<and>
   tuple init_ob [PInt 1, PTuple [PInt 2, PInt 3], PStr ''d''] =
     \<lparr>tuples = [PTuple [PInt 1, PInt 2, PInt 3, PStr ''d'']]\<rparr>"
  using tuple_splices_one_level [of init_ob _ "PInt 1" "PStr ''d'' " "PInt 2" "PInt 3"]
  by (simp add: init_ob_def)

lemma splice_then_args: "splice [u, v, PTuple args] = splice [u, v] @ args"
  by (cases u; cases v) simp_all

text \<open>
  C7. With an opcode and a script name that are not tuples, \<open>call_script\<close> given at
  most 16 parameters appends the one tuple (opcode, script, p1, ..., pn), and given 17
  or more it raises the parameter-count error and appends nothing. The other methods
  with a variable number of parameters, \<open>tuple\<close> and \<open>set_shader_param_float4x4\<close>,
  append their tuple whatever the number of parameters.
\<close>

theorem call_script_ceiling:
  assumes "\<not> is_tuple opcode" "\<not> is_tuple script"
  shows "(length args \<le> 16 \<longrightarrow>
            call_script opcode s script args =
              Inr (s\<lparr>tuples := tuples s @ [PTuple (opcode # script # args)]\<rparr>))
       \<and> (17 \<le> length args \<longrightarrow>
            call_script opcode s script args =
              Inl (ValueError
                ''Maximum number of parameters you can pass with the operation is 16.''))
       \<and> tuple s args = s\<lparr>tuples := tuples s @ [PTuple (splice args)]\<rparr>
       \<and> set_shader_param_float4x4 opcode2 s parameter_name args =
            s\<lparr>tuples := tuples s @ [PTuple (splice [opcode2, parameter_name] @ args)]\<rparr>"
proof -
  have cs: "flattened [opcode, script, PTuple args] = PTuple (opcode # script # args)"
    using assms by (cases opcode; cases script) (simp_all add: flattened_splice)
  have sh: "flattened [opcode2, parameter_name, PTuple args] =
      PTuple (splice [opcode2, parameter_name] @ args)"
    by (simp only: flattened_splice splice_then_args)
  have few: "length args \<le> 16 \<longrightarrow>
      call_script opcode s script args =
        Inr (s\<lparr>tuples := tuples s @ [PTuple (opcode # script # args)]\<rparr>)"
    by (simp add: call_script_def append_ob_def cs)
  have many: "17 \<le> length args \<longrightarrow>
      call_script opcode s script args =
        Inl (ValueError
          ''Maximum number of parameters you can pass with the operation is 16.'')"
    by (simp add: call_script_def)
  have t: "tuple s args = s\<lparr>tuples := tuples s @ [PTuple (splice args)]\<rparr>"
    by (simp add: tuple_def append_ob_def flattened_splice)
  have shader: "set_shader_param_float4x4 opcode2 s parameter_name args =
      s\<lparr>tuples := tuples s @ [PTuple (splice [opcode2, parameter_name] @ args)]\<rparr>"
    by (simp add: set_shader_param_float4x4_def append_ob_def sh)
  from few many t shader show ?thesis by blast
qed

theorem call_script_ceiling_witness:
  "\<not> is_tuple (PInt 1) \<and> \<not> is_tuple (PStr ''game_start'') \<and>
   length (replicate 16 (PInt 0)) \<le> 16 \<and>
   call_script (PInt 1) init_ob (PStr ''game_start'') (replicate 16 (PInt 0)) =
     Inr \<lparr>tuples = [PTuple (PInt 1 # PStr ''game_start'' # replicate 16 (PInt 0))]\<rparr> \<and>
   17 \<le> length (replicate 17 (PInt 0)) \<and>
   call_script (PInt 1) init_ob (PStr ''game_start'') (replicate 17 (PInt 0)) =
     Inl (ValueError ''Maximum number of parameters you can pass with the operation is 16.'')"
  using call_script_ceiling [of "PInt 1" "PStr ''game_start''" "replicate 16 (PInt 0)" init_ob]
    call_script_ceiling [of "PInt 1" "PStr ''game_start''" "replicate 17 (PInt 0)" init_ob]
  by (simp add: init_ob_def)

end
